theory Spec2Isabelle
  imports Complex_Main
begin

section \<open>Values of type float64\<close>

text \<open>
  The fields of an angle are Go \<open>float64\<close> values. They are modelled as exact reals together
  with the three special values of IEEE 754, so that a quotient by zero is the value the
  hardware produces and not an arbitrary number. Rounding, overflow to infinity and the sign
  of zero are not modelled: on finite values every operation is exact.
\<close>

datatype float64 = Fin real | PInf | NInf | NaN

fun fneg :: "float64 \<Rightarrow> float64" where
  "fneg (Fin x) = Fin (- x)"
| "fneg PInf = NInf"
| "fneg NInf = PInf"
| "fneg NaN = NaN"

fun fadd :: "float64 \<Rightarrow> float64 \<Rightarrow> float64" where
  "fadd (Fin x) (Fin y) = Fin (x + y)"
| "fadd NaN _ = NaN"
| "fadd _ NaN = NaN"
| "fadd PInf NInf = NaN"
| "fadd NInf PInf = NaN"
| "fadd PInf _ = PInf"
| "fadd _ PInf = PInf"
| "fadd NInf _ = NInf"
| "fadd _ NInf = NInf"

definition fsub :: "float64 \<Rightarrow> float64 \<Rightarrow> float64" where
  "fsub x y = fadd x (fneg y)"

fun fmul :: "float64 \<Rightarrow> float64 \<Rightarrow> float64" where
  "fmul (Fin x) (Fin y) = Fin (x * y)"
| "fmul NaN _ = NaN"
| "fmul _ NaN = NaN"
| "fmul (Fin x) PInf = (if x = 0 then NaN else if 0 < x then PInf else NInf)"
| "fmul (Fin x) NInf = (if x = 0 then NaN else if 0 < x then NInf else PInf)"
| "fmul PInf (Fin y) = (if y = 0 then NaN else if 0 < y then PInf else NInf)"
| "fmul NInf (Fin y) = (if y = 0 then NaN else if 0 < y then NInf else PInf)"
| "fmul PInf PInf = PInf"
| "fmul NInf NInf = PInf"
| "fmul PInf NInf = NInf"
| "fmul NInf PInf = NInf"

text \<open>
  The quotient \<open>x / d\<close> of Go on \<open>float64\<close>: a finite non-zero \<open>x\<close> over zero is an
  infinity, zero over zero is NaN; nothing panics and no error is raised.
\<close>

fun fdiv :: "float64 \<Rightarrow> float64 \<Rightarrow> float64" where
  "fdiv (Fin x) (Fin y) =
     (if y \<noteq> 0 then Fin (x / y) else if 0 < x then PInf else if x < 0 then NInf else NaN)"
| "fdiv NaN _ = NaN"
| "fdiv _ NaN = NaN"
| "fdiv (Fin x) PInf = Fin 0"
| "fdiv (Fin x) NInf = Fin 0"
| "fdiv PInf (Fin y) = (if 0 \<le> y then PInf else NInf)"
| "fdiv NInf (Fin y) = (if 0 \<le> y then NInf else PInf)"
| "fdiv PInf PInf = NaN"
| "fdiv PInf NInf = NaN"
| "fdiv NInf PInf = NaN"
| "fdiv NInf NInf = NaN"

fun fabs :: "float64 \<Rightarrow> float64" where
  "fabs (Fin x) = Fin \<bar>x\<bar>"
| "fabs PInf = PInf"
| "fabs NInf = PInf"
| "fabs NaN = NaN"

fun ffloor :: "float64 \<Rightarrow> float64" where
  "ffloor (Fin x) = Fin (of_int \<lfloor>x\<rfloor>)"
| "ffloor PInf = PInf"
| "ffloor NInf = NInf"
| "ffloor NaN = NaN"

text \<open>The comparisons \<open><\<close> and \<open>==\<close>; every comparison with NaN is false.\<close>

fun flt :: "float64 \<Rightarrow> float64 \<Rightarrow> bool" where
  "flt (Fin x) (Fin y) = (x < y)"
| "flt NaN _ = False"
| "flt _ NaN = False"
| "flt _ NInf = False"
| "flt PInf _ = False"
| "flt NInf _ = True"
| "flt _ PInf = True"

fun feq :: "float64 \<Rightarrow> float64 \<Rightarrow> bool" where
  "feq (Fin x) (Fin y) = (x = y)"
| "feq PInf PInf = True"
| "feq NInf NInf = True"
| "feq _ _ = False"

fun finite64 :: "float64 \<Rightarrow> bool" where
  "finite64 (Fin x) = True"
| "finite64 _ = False"

section \<open>The angle value (angle/angle.go)\<close>

datatype AngleType = Decimal | DegreeMinuteSecond

record Angle =
  degree :: float64
  minute :: float64
  second :: float64
  neg :: bool
  angType :: AngleType

text \<open>The zero value of the struct, which a composite literal starts from.\<close>

definition zeroAngle :: Angle where
  "zeroAngle = \<lparr>degree = Fin 0, minute = Fin 0, second = Fin 0, neg = False, angType = Decimal\<rparr>"

text \<open>
  Modelled from the spec: the package \<open>angle/consts\<close> is not among the sources. The numeric
  constants are the sexagesimal base and zero and one; the symbols are the glyphs of the
  textual form \<open>D\<degree>M'S"\<close> with a leading minus sign, as Unicode code points.
\<close>

definition TimeFormatConverter :: float64 where
  "TimeFormatConverter = Fin 60"

definition DecimalZero :: float64 where
  "DecimalZero = Fin 0"

definition DecimalOne :: float64 where
  "DecimalOne = Fin 1"

type_synonym rune = nat

definition DegreeSymbolRune :: rune where
  "DegreeSymbolRune = 176"

definition MinuteSymbolRune :: rune where
  "MinuteSymbolRune = 39"

definition SecondSymbolRune :: rune where
  "SecondSymbolRune = 34"

definition NegativeSymbolRune :: rune where
  "NegativeSymbolRune = 45"

subsection \<open>Operations of the angle type that the arithmetic calls\<close>

text \<open>
  Modelled from the spec: \<open>Abs\<close> is not among the sources. The sign is a separate flag and
  the magnitude fields are not touched, so the absolute value clears the flag.
\<close>

definition Abs :: "Angle \<Rightarrow> Angle" where
  "Abs a = a\<lparr>neg := False\<rparr>"

text \<open>
  Modelled from the spec: \<open>Neg\<close> is not among the sources. Negation flips the sign flag; a
  zero magnitude with the flag set is a legal value.
\<close>

definition Neg :: "Angle \<Rightarrow> Angle" where
  "Neg a = a\<lparr>neg := \<not> neg a\<rparr>"

text \<open>
  Modelled from the spec: \<open>ToDecimal\<close> is not among the sources. The decimal magnitude of a
  degree/minute/second triple is \<open>degree + minute / 60 + second / 3600\<close>; the sign flag is kept
  and an angle that is already decimal is returned as it is.
\<close>

definition ToDecimal :: "Angle \<Rightarrow> Angle" where
  "ToDecimal a =
     (if angType a = Decimal then a
      else \<lparr>degree = fadd (fadd (degree a) (fdiv (minute a) (Fin 60))) (fdiv (second a) (Fin 3600)),
            minute = Fin 0, second = Fin 0, neg = neg a, angType = Decimal\<rparr>)"

text \<open>
  Modelled from the spec: \<open>ToMinuteSecond\<close> is not among the sources. The whole degrees are
  the integral part of the decimal magnitude, the minutes the integral part of sixty times
  the rest, the seconds sixty times what is left; the sign flag is kept and an angle that is
  already a triple is returned as it is.
\<close>

definition ToMinuteSecond :: "Angle \<Rightarrow> Angle" where
  "ToMinuteSecond a =
     (if angType a = DegreeMinuteSecond then a
      else (let d = ffloor (degree a);
                mf = fmul (fsub (degree a) d) (Fin 60);
                m = ffloor mf
            in \<lparr>degree = d, minute = m, second = fmul (fsub mf m) (Fin 60),
                neg = neg a, angType = DegreeMinuteSecond\<rparr>))"

text \<open>
  Modelled from the spec: \<open>ToSpecificType\<close> is not among the sources. It converts to the
  representation asked for.
\<close>

definition ToSpecificType :: "AngleType \<Rightarrow> Angle \<Rightarrow> Angle" where
  "ToSpecificType t a = (case t of Decimal \<Rightarrow> ToDecimal a | DegreeMinuteSecond \<Rightarrow> ToMinuteSecond a)"

text \<open>
  Modelled from the spec: \<open>GreatherThan\<close> is not among the sources. The comparison of the
  spec compares magnitudes only, in decimal degrees, whatever the two representations are.
\<close>

definition GreatherThan :: "Angle \<Rightarrow> Angle \<Rightarrow> bool" where
  "GreatherThan a a1 = flt (degree (ToDecimal a1)) (degree (ToDecimal a))"

text \<open>
  Modelled from the spec: \<open>IsZero\<close> is not among the sources. An angle is zero when the
  magnitude of its representation is zero, whatever the sign flag says.
\<close>

definition IsZero :: "Angle \<Rightarrow> bool" where
  "IsZero a =
     (case angType a of
        Decimal \<Rightarrow> feq (degree a) (Fin 0)
      | DegreeMinuteSecond \<Rightarrow>
          feq (degree a) (Fin 0) \<and> feq (minute a) (Fin 0) \<and> feq (second a) (Fin 0))"

text \<open>
  Modelled from the spec: \<open>prepareConvertMinuteSecond\<close> is not among the sources. It is the
  normalisation of a triple: whole multiples of sixty seconds roll into the minutes, then
  whole multiples of sixty minutes roll into the degrees.
\<close>

definition prepareConvertMinuteSecond :: "Angle \<Rightarrow> Angle" where
  "prepareConvertMinuteSecond a =
     (let cs = ffloor (fdiv (second a) (Fin 60));
          s = fsub (second a) (fmul cs (Fin 60));
          m1 = fadd (minute a) cs;
          cm = ffloor (fdiv m1 (Fin 60));
          m = fsub m1 (fmul cm (Fin 60))
      in a\<lparr>degree := fadd (degree a) cm, minute := m, second := s\<rparr>)"

section \<open>Arithmetic on angles (addition, subtraction, division)\<close>

definition addToDecimalType :: "Angle \<Rightarrow> Angle \<Rightarrow> Angle" where
  "addToDecimalType a ang0 =
     (let ang = (if angType ang0 \<noteq> Decimal then ToDecimal ang0 else ang0)
      in zeroAngle\<lparr>degree := fadd (degree a) (degree ang), angType := Decimal\<rparr>)"

definition addToMinuteSecondType :: "Angle \<Rightarrow> Angle \<Rightarrow> Angle" where
  "addToMinuteSecondType a ang0 =
     (let ang = (if angType ang0 \<noteq> DegreeMinuteSecond then ToMinuteSecond ang0 else ang0);
          second' = fadd (second a) (second ang);
          minute' = fadd (minute a) (minute ang);
          degree' = fadd (degree a) (degree ang)
      in prepareConvertMinuteSecond
           (zeroAngle\<lparr>degree := degree', minute := minute', second := second',
                       angType := DegreeMinuteSecond\<rparr>))"

text \<open>
  The functions that call themselves or each other carry the depth of calls they may still
  make as their first argument: a call at depth zero does not run and gives \<open>None\<close>, every
  nested call gets one less. A result \<open>Some r\<close> is the angle the Go function returns.
\<close>

fun subToDecimalType :: "nat \<Rightarrow> Angle \<Rightarrow> Angle \<Rightarrow> Angle option" where
  "subToDecimalType 0 a a1 = None"
| "subToDecimalType (Suc n) a a1 =
     (let a1' = (if angType a1 \<noteq> Decimal then ToDecimal a1 else a1)
      in if GreatherThan a1' a then map_option Neg (subToDecimalType n a1' a)
         else Some (zeroAngle\<lparr>degree := fabs (fsub (degree a) (degree a1')),
                               angType := Decimal\<rparr>))"

definition takeForSub :: "float64 \<Rightarrow> float64 \<Rightarrow> float64 \<times> float64" where
  "takeForSub val upperValue =
     (if feq upperValue DecimalZero then (val, upperValue)
      else (fadd val TimeFormatConverter, fsub upperValue DecimalOne))"

definition prepareMinuend :: "Angle \<Rightarrow> Angle \<Rightarrow> Angle" where
  "prepareMinuend a a1 =
     (let second0 = second a; minute0 = minute a; degree0 = degree a;
          (second1, minute1, degree1) =
            (if flt second0 (second a1)
             then (let (s, m) = takeForSub second0 minute0
                   in if feq s (second a)
                      then (let (m', d') = takeForSub m degree0 in (s, m', d'))
                      else (s, m, degree0))
             else (second0, minute0, degree0));
          (minute2, degree2) =
            (if flt minute1 (minute a1) then takeForSub minute1 degree1 else (minute1, degree1))
      in zeroAngle\<lparr>degree := degree2, minute := minute2, second := second1,
                     angType := DegreeMinuteSecond\<rparr>)"

fun subToMinuteSecondType :: "nat \<Rightarrow> Angle \<Rightarrow> Angle \<Rightarrow> Angle option" where
  "subToMinuteSecondType 0 a a1 = None"
| "subToMinuteSecondType (Suc n) a a1 =
     (let a1' = (if angType a1 \<noteq> DegreeMinuteSecond then ToMinuteSecond a1 else a1);
          a' = prepareMinuend a a1'
      in if GreatherThan a1' a' then map_option Neg (subToMinuteSecondType n a1' a')
         else Some (prepareConvertMinuteSecond
                      (zeroAngle\<lparr>degree := fabs (fsub (degree a') (degree a1')),
                                  minute := fabs (fsub (minute a') (minute a1')),
                                  second := fabs (fsub (second a') (second a1')),
                                  angType := DegreeMinuteSecond\<rparr>)))"

text \<open>
  Modelled from the spec: the exported \<open>Sub\<close>, which \<open>addToAugendType\<close> calls, is not among
  the sources. It is the subtraction of the package and hands its operands to
  \<open>subToMinuendType\<close>; being a wrapper, it does not count as a level of its own. It is
  defined together with \<open>addToAugendType\<close> and \<open>subToMinuendType\<close> of the source, which call
  each other through it.
\<close>

fun addToAugendType :: "nat \<Rightarrow> Angle \<Rightarrow> Angle \<Rightarrow> Angle option"
  and subToMinuendType :: "nat \<Rightarrow> Angle \<Rightarrow> Angle \<Rightarrow> Angle option"
  and Sub :: "nat \<Rightarrow> Angle \<Rightarrow> Angle \<Rightarrow> Angle option" where
  "addToAugendType 0 a a1 = None"
| "addToAugendType (Suc n) a a1 =
     (if neg a \<and> neg a1 then map_option Neg (addToAugendType n (Abs a) (Abs a1))
      else if neg a then Sub n (ToSpecificType (angType a) a1) (Abs a)
      else if neg a1 then Sub n a (Abs a1)
      else if angType a = Decimal then Some (addToDecimalType a a1)
      else Some (addToMinuteSecondType a a1))"
| "subToMinuendType 0 a a1 = None"
| "subToMinuendType (Suc n) a a1 =
     (if neg a \<and> neg a1
      then subToMinuendType n (ToSpecificType (angType a) (Abs a1)) (Abs a1)
      else if neg a then map_option Neg (addToAugendType n (Abs a) (Abs a1))
      else if neg a1 then addToAugendType n (Abs a) (Abs a1)
      else if angType a1 = Decimal then subToDecimalType n a a1
      else subToMinuteSecondType n a a1)"
| "Sub n a a1 = subToMinuendType n a a1"

definition divToDividendType :: "Angle \<Rightarrow> float64 \<Rightarrow> Angle" where
  "divToDividendType a d =
     (let angType0 = angType a;
          a' = (if angType a \<noteq> Decimal then ToDecimal a else a);
          a'' = a'\<lparr>degree := fdiv (degree a') d\<rparr>
      in ToSpecificType angType0 a'')"

section \<open>Errors\<close>

text \<open>
  Modelled from the spec: the package \<open>err\<close> is not among the sources; these are the error
  values the sources return. \<open>ErrJSON\<close> stands for any error of \<open>json.Unmarshal\<close>.
\<close>

datatype error =
  ErrDateMissing | ErrLatitudeMissing | ErrLongitudeMissing
  | ErrFajrZenithMissing | ErrIshaZenithMissing | ErrMazhabMissing
  | ErrConstantParsing | ErrJSON

section \<open>Parsing the textual form (angle/angle.go)\<close>

text \<open>
  A Go string is read rune by rune, so a text is a list of code points.
  \<open>json.Unmarshal([]byte(src), &x)\<close> on a \<open>float64\<close> is a parameter of the scanner: given
  the text and the value \<open>x\<close> holds, it gives the value \<open>x\<close> holds afterwards, or an error
  that leaves \<open>x\<close> as it was. A method with a pointer receiver returns the angle it leaves
  behind together with its error, \<open>None\<close> for \<open>nil\<close>.
\<close>

type_synonym unmarshal = "rune list \<Rightarrow> float64 \<Rightarrow> error + float64"

definition fillBySymbol :: "unmarshal \<Rightarrow> rune list \<Rightarrow> rune \<Rightarrow> Angle \<Rightarrow> Angle \<times> error option" where
  "fillBySymbol unm src symbol d =
     (case (if symbol = DegreeSymbolRune
            then (case unm src (degree d) of Inl e \<Rightarrow> Inl e | Inr v \<Rightarrow> Inr (d\<lparr>degree := v\<rparr>))
            else Inr d) of
        Inl e \<Rightarrow> (d, Some e)
      | Inr d1 \<Rightarrow>
          (case (if symbol = MinuteSymbolRune
                 then (case unm src (minute d1) of Inl e \<Rightarrow> Inl e | Inr v \<Rightarrow> Inr (d1\<lparr>minute := v\<rparr>))
                 else Inr d1) of
             Inl e \<Rightarrow> (d1, Some e)
           | Inr d2 \<Rightarrow>
               (case unm src (second d2) of
                  Inl e \<Rightarrow> (d2, Some e)
                | Inr v \<Rightarrow> (d2\<lparr>second := v\<rparr>, None))))"

definition decideFillBySymbol :: "unmarshal \<Rightarrow> rune list \<Rightarrow> rune \<Rightarrow> Angle \<Rightarrow> Angle \<times> error option" where
  "decideFillBySymbol unm src symbol d =
     (let d1 = d\<lparr>angType := Decimal\<rparr>;
          d2 = (if symbol = MinuteSymbolRune \<or> symbol = SecondSymbolRune
                then d1\<lparr>angType := DegreeMinuteSecond\<rparr> else d1)
      in fillBySymbol unm src symbol d2)"

text \<open>
  The loop of \<open>scanByString\<close> over the runes still to read, with the buffer (never reset)
  and the angle as its state. \<open>WriteRune\<close> on a \<open>bytes.Buffer\<close> always returns a nil error.
\<close>

fun scanLoop :: "unmarshal \<Rightarrow> rune list \<Rightarrow> rune list \<Rightarrow> Angle \<Rightarrow> (rune list \<times> Angle) \<times> error option" where
  "scanLoop unm [] buff d = ((buff, d), None)"
| "scanLoop unm (s # rest) buff d =
     (if s \<noteq> DegreeSymbolRune \<and> s \<noteq> MinuteSymbolRune \<and> s \<noteq> SecondSymbolRune
      then scanLoop unm rest (buff @ [s]) d
      else if s = NegativeSymbolRune then scanLoop unm rest buff (d\<lparr>neg := True\<rparr>)
      else (case decideFillBySymbol unm buff s d of
              (d', Some e) \<Rightarrow> ((buff, d'), Some e)
            | (d', None) \<Rightarrow> scanLoop unm rest buff d'))"

text \<open>
  The loop variable \<open>s\<close> is declared outside the loop: after it, \<open>s\<close> is the last rune of the
  text, or the zero rune when the text is empty.
\<close>

definition lastRune :: "rune list \<Rightarrow> rune" where
  "lastRune src = (case rev src of [] \<Rightarrow> 0 | s # _ \<Rightarrow> s)"

definition scanByString :: "unmarshal \<Rightarrow> rune list \<Rightarrow> Angle \<Rightarrow> Angle \<times> error option" where
  "scanByString unm src d =
     (case scanLoop unm src [] d of
        ((buff, d'), Some e) \<Rightarrow> (d', Some e)
      | ((buff, d'), None) \<Rightarrow> decideFillBySymbol unm buff (lastRune src) d')"

definition UnmarshalParam :: "unmarshal \<Rightarrow> rune list \<Rightarrow> Angle \<Rightarrow> Angle \<times> error option" where
  "UnmarshalParam unm src d = scanByString unm src d"

text \<open>
  What \<open>json.Unmarshal\<close> does on the plain decimal literals of JSON: an optional minus sign,
  an integral part without a leading zero (or the single digit zero), and an optional
  fraction. Every other text is refused here; the examples below use plain literals only.
\<close>

fun digitsVal :: "rune list \<Rightarrow> nat \<Rightarrow> nat option" where
  "digitsVal [] acc = Some acc"
| "digitsVal (c # cs) acc =
     (if 48 \<le> c \<and> c \<le> 57 then digitsVal cs (10 * acc + (c - 48)) else None)"

definition jsonUnsigned :: "rune list \<Rightarrow> real option" where
  "jsonUnsigned cs =
     (let ip = takeWhile (\<lambda>c. c \<noteq> 46) cs; rest = dropWhile (\<lambda>c. c \<noteq> 46) cs
      in case ip of
           [] \<Rightarrow> None
         | c # ds \<Rightarrow>
             (if c = 48 \<and> ds \<noteq> [] then None
              else (case digitsVal ip 0 of
                      None \<Rightarrow> None
                    | Some i \<Rightarrow>
                        (case rest of
                           [] \<Rightarrow> Some (real i)
                         | _ # fs \<Rightarrow>
                             (case fs of
                                [] \<Rightarrow> None
                              | _ # _ \<Rightarrow>
                                  (case digitsVal fs 0 of
                                     None \<Rightarrow> None
                                   | Some f \<Rightarrow> Some (real i + real f / 10 ^ length fs)))))))"

definition jsonFloat :: unmarshal where
  "jsonFloat src old =
     (case src of
        [] \<Rightarrow> Inl ErrJSON
      | c # cs \<Rightarrow>
          (if c = 45
           then (case jsonUnsigned cs of None \<Rightarrow> Inl ErrJSON | Some r \<Rightarrow> Inr (Fin (- r)))
           else (case jsonUnsigned src of None \<Rightarrow> Inl ErrJSON | Some r \<Rightarrow> Inr (Fin r))))"

section \<open>The configuration of a schedule (schedule/option.go)\<close>

text \<open>
  An instant of \<open>time.Time\<close> is its distance from the zero instant, which is the one
  \<open>IsZero\<close> reports. A \<open>*time.Location\<close> is \<open>None\<close> when nil.
\<close>

type_synonym time = int

definition time_IsZero :: "time \<Rightarrow> bool" where
  "time_IsZero t = (t = 0)"

datatype Location = UTC | Local | FixedZone string int

text \<open>
  Modelled from the spec: the enumerations are not among the sources. The prayers are the
  ones the schedule solves; the other enumerations are integer tags, as the comparison of
  the mazhab with \<open>0\<close> shows for one of them, and are only stored here. The elements of the
  cached sun positions are opaque.
\<close>

datatype Salat = Fajr | Sunrise | Dhuhr | Asr | Maghrib | Isha

type_synonym Periodical = int
type_synonym IshaZenithType = int
type_synonym Mazhab = int
type_synonym HigherLat = int
type_synonym RoundingTimeOption = int

typedecl SunPosition

record opt =
  dateStart :: time
  dateEnd :: time
  periodical :: Periodical
  latitude :: Angle
  longitude :: Angle
  elevation :: float64
  timezoneLoc :: "Location option"
  fajrZenith :: Angle
  ishaZenith :: Angle
  ishaZenithType :: IshaZenithType
  mazhab :: Mazhab
  higherLatitudeMethod :: HigherLat
  roundingTimeOption :: RoundingTimeOption
  sunPositions :: "SunPosition list"

text \<open>
  The setters mutate the receiver and return it; here they return the new configuration.
  \<open>periodical.GetDateRange\<close> is not among the sources and is a parameter, as is the clock
  that \<open>time.Now()\<close> reads.
\<close>

definition SetDatePeriodical ::
  "(Periodical \<Rightarrow> time \<Rightarrow> time \<times> time) \<Rightarrow> time \<Rightarrow> Periodical \<Rightarrow> opt \<Rightarrow> opt" where
  "SetDatePeriodical getDateRange start p o1 =
     (let (s, e) = getDateRange p start
      in o1\<lparr>dateStart := s, dateEnd := e, periodical := p, sunPositions := []\<rparr>)"

definition SetPeriodical ::
  "time \<Rightarrow> (Periodical \<Rightarrow> time \<Rightarrow> time \<times> time) \<Rightarrow> Periodical \<Rightarrow> opt \<Rightarrow> opt" where
  "SetPeriodical now getDateRange p o1 =
     (let o2 = (if time_IsZero (dateStart o1) then o1\<lparr>dateStart := now\<rparr> else o1)
      in SetDatePeriodical getDateRange (dateStart o2) p o2)"

text \<open>
  \<open>ValidateBySalat\<close> has a pointer receiver: it returns the configuration it leaves behind
  together with its error, \<open>None\<close> for \<open>nil\<close>.
\<close>

definition ValidateBySalat :: "opt \<Rightarrow> Salat \<Rightarrow> opt \<times> error option" where
  "ValidateBySalat o1 salat =
     (if time_IsZero (dateStart o1) then (o1, Some ErrDateMissing)
      else if IsZero (latitude o1) then (o1, Some ErrLatitudeMissing)
      else if IsZero (longitude o1) then (o1, Some ErrLongitudeMissing)
      else
        (let o2 = (if angType (latitude o1) \<noteq> angType (longitude o1)
                   then o1\<lparr>longitude := ToSpecificType (angType (latitude o1)) (longitude o1)\<rparr>
                   else o1);
             o3 = (if timezoneLoc o2 = None then o2\<lparr>timezoneLoc := Some UTC\<rparr> else o2)
         in if IsZero (fajrZenith o3) \<and> salat = Fajr then (o3, Some ErrFajrZenithMissing)
            else if IsZero (ishaZenith o3) \<and> salat = Isha then (o3, Some ErrIshaZenithMissing)
            else if mazhab o3 = 0 \<and> salat = Asr then (o3, Some ErrMazhabMissing)
            else (o3, None)))"

section \<open>Auxiliary notions\<close>

text \<open>The decimal magnitude of the triple an angle stores, whatever its tag says.\<close>

definition dmsval :: "Angle \<Rightarrow> float64" where
  "dmsval a = fadd (fadd (degree a) (fdiv (minute a) (Fin 60))) (fdiv (second a) (Fin 3600))"

text \<open>
  The zero value of the configuration struct, which the builder of a schedule starts from,
  and a date range function to run the examples with: the range of a single instant.
\<close>

definition zeroOpt :: opt where
  "zeroOpt = \<lparr>dateStart = 0, dateEnd = 0, periodical = 0, latitude = zeroAngle,
               longitude = zeroAngle, elevation = Fin 0, timezoneLoc = None,
               fajrZenith = zeroAngle, ishaZenith = zeroAngle, ishaZenithType = 0, mazhab = 0,
               higherLatitudeMethod = 0, roundingTimeOption = 0, sunPositions = []\<rparr>"

definition sameInstant :: "Periodical \<Rightarrow> time \<Rightarrow> time \<times> time" where
  "sameInstant p t = (t, t)"

section \<open>Basic facts about the operations\<close>

lemma flt_asym: "flt x y \<Longrightarrow> \<not> flt y x"
  by (cases x; cases y) auto

lemma neg_Abs [simp]: "neg (Abs a) = False"
  by (simp add: Abs_def)

lemma angType_Abs [simp]: "angType (Abs a) = angType a"
  by (simp add: Abs_def)

lemma neg_ToDecimal [simp]: "neg (ToDecimal a) = neg a"
  by (simp add: ToDecimal_def)

lemma neg_ToMinuteSecond [simp]: "neg (ToMinuteSecond a) = neg a"
  by (simp add: ToMinuteSecond_def Let_def)

lemma neg_ToSpecificType [simp]: "neg (ToSpecificType t a) = neg a"
  by (cases t) (simp_all add: ToSpecificType_def)

lemma angType_ToDecimal [simp]: "angType (ToDecimal a) = Decimal"
  by (simp add: ToDecimal_def)

lemma angType_ToMinuteSecond [simp]: "angType (ToMinuteSecond a) = DegreeMinuteSecond"
  by (simp add: ToMinuteSecond_def Let_def)

lemma angType_ToSpecificType [simp]: "angType (ToSpecificType t a) = t"
  by (cases t) (simp_all add: ToSpecificType_def)

lemma ToDecimal_idem [simp]: "ToDecimal (ToDecimal a) = ToDecimal a"
  by (simp add: ToDecimal_def)

lemma ToDecimal_id: "angType a = Decimal \<Longrightarrow> ToDecimal a = a"
  by (simp add: ToDecimal_def)

lemma angType_prepareMinuend [simp]: "angType (prepareMinuend a a1) = DegreeMinuteSecond"
  by (simp add: prepareMinuend_def Let_def zeroAngle_def split: prod.splits)

lemma dmsval_ToDecimal: "angType a = DegreeMinuteSecond \<Longrightarrow> degree (ToDecimal a) = dmsval a"
  by (simp add: ToDecimal_def dmsval_def)

text \<open>
  Borrowing moves sixty units down and one unit up: in exact arithmetic the magnitude of
  the minuend stays. In \<open>float64\<close> the sums are rounded and this is not so.
\<close>

lemma dmsval_prepareMinuend: "dmsval (prepareMinuend a a1) = dmsval a"
  apply (cases "degree a"; cases "minute a"; cases "second a")
  apply (auto simp: dmsval_def prepareMinuend_def Let_def zeroAngle_def takeForSub_def
      fsub_def TimeFormatConverter_def DecimalZero_def DecimalOne_def split: prod.splits if_splits)
  apply (simp_all add: field_simps)
  done

section \<open>Existence of results in exact arithmetic\<close>

text \<open>
  The facts of this section are facts of the arithmetic of this theory, which is exact on
  finite values, and of the comparison \<open>GreatherThan\<close> as it is modelled here. They show that
  the functions above give a result at a small depth of calls, so that the statements
  about results further down are not empty. They are not a bound on the depth of the
  calls of the program: in \<open>float64\<close> the sum \<open>value + 60\<close> of \<open>takeForSub\<close> and the decimal
  magnitude that the comparison looks at are rounded, a borrow need not keep the magnitude,
  and the two subtraction routines can swap their operands more than once.

  In exact arithmetic the swap in \<open>subToDecimalType\<close> happens at most once: after it the
  former subtrahend is the minuend and the comparison that caused the swap cannot succeed
  in the other direction.
\<close>

lemma subToDecimalType_two:
  "subToDecimalType (Suc (Suc n)) a a1 = subToDecimalType (Suc (Suc 0)) a a1"
  by (auto simp: Let_def GreatherThan_def ToDecimal_id dest: flt_asym)

lemma subToDecimalType_total: "\<exists>r. subToDecimalType (Suc (Suc n)) a a1 = Some r"
  by (auto simp: Let_def GreatherThan_def ToDecimal_id dest: flt_asym)

lemma subToMinuteSecondType_two:
  "subToMinuteSecondType (Suc (Suc n)) a a1 = subToMinuteSecondType (Suc (Suc 0)) a a1"
  by (auto simp: Let_def GreatherThan_def dmsval_ToDecimal dmsval_prepareMinuend dest: flt_asym)

lemma subToMinuteSecondType_total: "\<exists>r. subToMinuteSecondType (Suc (Suc n)) a a1 = Some r"
  by (auto simp: Let_def GreatherThan_def dmsval_ToDecimal dmsval_prepareMinuend dest: flt_asym)

lemma sub_nonneg:
  assumes "\<not> neg a" "\<not> neg a1"
  shows "subToMinuendType (Suc (Suc (Suc n))) a a1 = subToMinuendType (Suc (Suc (Suc 0))) a a1"
    and "\<exists>r. subToMinuendType (Suc (Suc (Suc n))) a a1 = Some r"
  using assms subToDecimalType_two [of n a a1] subToMinuteSecondType_two [of n a a1]
    subToDecimalType_total [of n a a1] subToMinuteSecondType_total [of n a a1]
  by (simp_all del: subToDecimalType.simps subToMinuteSecondType.simps)

lemma add_nonneg:
  assumes "\<not> neg a" "\<not> neg a1"
  shows "addToAugendType (Suc n) a a1 = addToAugendType (Suc 0) a a1"
    and "\<exists>r. addToAugendType (Suc n) a a1 = Some r"
  using assms by simp_all

lemma add_four:
  "addToAugendType (Suc (Suc (Suc (Suc n)))) a a1 = addToAugendType (Suc (Suc (Suc (Suc 0)))) a a1"
proof -
  have "addToAugendType (Suc (Suc (Suc n))) (Abs a) (Abs a1)
      = addToAugendType (Suc (Suc (Suc 0))) (Abs a) (Abs a1)"
    using add_nonneg(1) [of "Abs a" "Abs a1"] by simp
  moreover have "neg a \<Longrightarrow> \<not> neg a1 \<Longrightarrow>
      subToMinuendType (Suc (Suc (Suc n))) (ToSpecificType (angType a) a1) (Abs a)
      = subToMinuendType (Suc (Suc (Suc 0))) (ToSpecificType (angType a) a1) (Abs a)"
    by (rule sub_nonneg(1)) simp_all
  moreover have "\<not> neg a \<Longrightarrow>
      subToMinuendType (Suc (Suc (Suc n))) a (Abs a1) = subToMinuendType (Suc (Suc (Suc 0))) a (Abs a1)"
    by (rule sub_nonneg(1)) simp_all
  ultimately show ?thesis
    by (subst (1 2) addToAugendType.simps(2))
      (simp del: addToAugendType.simps subToMinuendType.simps)
qed

lemma add_total: "\<exists>r. addToAugendType (Suc (Suc (Suc (Suc n)))) a a1 = Some r"
proof -
  have "\<exists>r. addToAugendType (Suc (Suc (Suc n))) (Abs a) (Abs a1) = Some r"
    by (rule add_nonneg(2)) simp_all
  moreover have "neg a \<Longrightarrow> \<not> neg a1 \<Longrightarrow>
      \<exists>r. subToMinuendType (Suc (Suc (Suc n))) (ToSpecificType (angType a) a1) (Abs a) = Some r"
    by (rule sub_nonneg(2)) simp_all
  moreover have "\<not> neg a \<Longrightarrow> \<exists>r. subToMinuendType (Suc (Suc (Suc n))) a (Abs a1) = Some r"
    by (rule sub_nonneg(2)) simp_all
  ultimately show ?thesis
    by (subst addToAugendType.simps(2))
      (auto simp del: addToAugendType.simps subToMinuendType.simps)
qed

lemma sub_four:
  "subToMinuendType (Suc (Suc (Suc (Suc n)))) a a1 = subToMinuendType (Suc (Suc (Suc (Suc 0)))) a a1"
proof -
  have "addToAugendType (Suc (Suc (Suc n))) (Abs a) (Abs a1)
      = addToAugendType (Suc (Suc (Suc 0))) (Abs a) (Abs a1)"
    using add_nonneg(1) [of "Abs a" "Abs a1"] by simp
  moreover have "subToMinuendType (Suc (Suc (Suc n))) (ToSpecificType (angType a) (Abs a1)) (Abs a1)
      = subToMinuendType (Suc (Suc (Suc 0))) (ToSpecificType (angType a) (Abs a1)) (Abs a1)"
    by (rule sub_nonneg(1)) simp_all
  moreover have "subToDecimalType (Suc (Suc (Suc n))) a a1 = subToDecimalType (Suc (Suc (Suc 0))) a a1"
    using subToDecimalType_two [of "Suc n" a a1] subToDecimalType_two [of "Suc 0" a a1] by simp
  moreover have "subToMinuteSecondType (Suc (Suc (Suc n))) a a1
      = subToMinuteSecondType (Suc (Suc (Suc 0))) a a1"
    using subToMinuteSecondType_two [of "Suc n" a a1] subToMinuteSecondType_two [of "Suc 0" a a1]
    by simp
  ultimately show ?thesis
    by (subst (1 2) subToMinuendType.simps(2))
      (simp del: addToAugendType.simps subToMinuendType.simps subToDecimalType.simps
        subToMinuteSecondType.simps)
qed

lemma sub_total: "\<exists>r. subToMinuendType (Suc (Suc (Suc (Suc n)))) a a1 = Some r"
proof -
  have "\<exists>r. addToAugendType (Suc (Suc (Suc n))) (Abs a) (Abs a1) = Some r"
    by (rule add_nonneg(2)) simp_all
  moreover have
    "\<exists>r. subToMinuendType (Suc (Suc (Suc n))) (ToSpecificType (angType a) (Abs a1)) (Abs a1) = Some r"
    by (rule sub_nonneg(2)) simp_all
  moreover have "\<exists>r. subToDecimalType (Suc (Suc (Suc n))) a a1 = Some r"
    by (rule subToDecimalType_total)
  moreover have "\<exists>r. subToMinuteSecondType (Suc (Suc (Suc n))) a a1 = Some r"
    by (rule subToMinuteSecondType_total)
  ultimately show ?thesis
    by (subst subToMinuendType.simps(2))
      (auto simp del: addToAugendType.simps subToMinuendType.simps subToDecimalType.simps
        subToMinuteSecondType.simps)
qed

section \<open>Subtraction with a borrow\<close>

text \<open>
  C6. Subtracting \<open>0\<degree>20'10"\<close> from \<open>30\<degree>10'5"\<close> gives \<open>29\<degree>49'55"\<close>. The borrow step takes one
  minute into the seconds (5 and 10 become 65 and 9) and then one degree into the minutes
  (9 and 30 become 69 and 29), so the prepared minuend is \<open>29\<degree>69'65"\<close>; the fields are then
  subtracted one by one, and minute and second of the result lie in the range from 0 up to,
  but not including, 60.
\<close>

theorem subtraction_double_borrow:
  "takeForSub (Fin 5) (Fin 10) = (Fin 65, Fin 9)
   \<and> takeForSub (Fin 9) (Fin 30) = (Fin 69, Fin 29)
   \<and> prepareMinuend
        \<lparr>degree = Fin 30, minute = Fin 10, second = Fin 5, neg = False, angType = DegreeMinuteSecond\<rparr>
        \<lparr>degree = Fin 0, minute = Fin 20, second = Fin 10, neg = False, angType = DegreeMinuteSecond\<rparr>
      = \<lparr>degree = Fin 29, minute = Fin 69, second = Fin 65, neg = False, angType = DegreeMinuteSecond\<rparr>
   \<and> subToMinuendType (Suc (Suc n))
        \<lparr>degree = Fin 30, minute = Fin 10, second = Fin 5, neg = False, angType = DegreeMinuteSecond\<rparr>
        \<lparr>degree = Fin 0, minute = Fin 20, second = Fin 10, neg = False, angType = DegreeMinuteSecond\<rparr>
      = Some \<lparr>degree = Fin 29, minute = Fin 49, second = Fin 55, neg = False,
               angType = DegreeMinuteSecond\<rparr>
   \<and> map_option
        (\<lambda>r. (flt (minute r) (Fin 60), flt (second r) (Fin 60),
              flt (minute r) (Fin 0), flt (second r) (Fin 0)))
        (subToMinuendType (Suc (Suc n))
          \<lparr>degree = Fin 30, minute = Fin 10, second = Fin 5, neg = False,
             angType = DegreeMinuteSecond\<rparr>
          \<lparr>degree = Fin 0, minute = Fin 20, second = Fin 10, neg = False,
             angType = DegreeMinuteSecond\<rparr>)
      = Some (True, True, False, False)"
  by (simp add: zeroAngle_def prepareMinuend_def takeForSub_def GreatherThan_def ToDecimal_def
      prepareConvertMinuteSecond_def fsub_def TimeFormatConverter_def DecimalZero_def
      DecimalOne_def)

section \<open>Division by a scalar\<close>

lemma fdiv_zero_not_finite: "\<not> finite64 (fdiv x (Fin 0))"
  by (cases x) auto

text \<open>
  C1, as stated, fails on the code: \<open>divToDividendType\<close> has an angle as its only result
  and divides without looking at the divisor. Dividing \<open>10\<degree>\<close> by zero returns the angle whose
  degree is positive infinity.
\<close>

theorem division_by_zero_counterexample:
  "divToDividendType
     \<lparr>degree = Fin 10, minute = Fin 0, second = Fin 0, neg = False, angType = Decimal\<rparr> (Fin 0)
   = \<lparr>degree = PInf, minute = Fin 0, second = Fin 0, neg = False, angType = Decimal\<rparr>"
  by (simp add: divToDividendType_def ToSpecificType_def ToDecimal_def)

text \<open>
  C1, amended. For every angle \<open>a\<close>, dividing \<open>a\<close> by the scalar zero does not fail: the
  division is done on the decimal form of \<open>a\<close>, whose degree becomes the quotient by zero of
  IEEE 754 (an infinity or NaN, never a finite value), and the result is converted back to the
  representation of \<open>a\<close>. For a decimal \<open>a\<close> the result is \<open>a\<close> with that degree.
\<close>

theorem division_by_zero_returns_nonfinite:
  "divToDividendType a (Fin 0)
     = ToSpecificType (angType a) ((ToDecimal a)\<lparr>degree := fdiv (degree (ToDecimal a)) (Fin 0)\<rparr>)
   \<and> \<not> finite64 (fdiv (degree (ToDecimal a)) (Fin 0))
   \<and> (angType a = Decimal \<longrightarrow>
        divToDividendType a (Fin 0) = a\<lparr>degree := fdiv (degree a) (Fin 0)\<rparr>
        \<and> \<not> finite64 (degree (divToDividendType a (Fin 0))))"
proof -
  have general: "divToDividendType a (Fin 0)
      = ToSpecificType (angType a) ((ToDecimal a)\<lparr>degree := fdiv (degree (ToDecimal a)) (Fin 0)\<rparr>)"
    by (cases "angType a = Decimal") (simp_all add: divToDividendType_def Let_def ToDecimal_id)
  have dec: "divToDividendType a (Fin 0) = a\<lparr>degree := fdiv (degree a) (Fin 0)\<rparr>"
    if "angType a = Decimal"
    using that by (simp add: general ToDecimal_id ToSpecificType_def)
  show ?thesis
    using general dec by (simp add: fdiv_zero_not_finite)
qed

text \<open>
  An instance of the amended C1: zero degrees divided by zero is the angle whose degree
  is NaN.
\<close>

theorem division_by_zero_returns_nonfinite_witness:
  "divToDividendType zeroAngle (Fin 0) = zeroAngle\<lparr>degree := NaN\<rparr>
   \<and> \<not> finite64 (degree (divToDividendType zeroAngle (Fin 0)))"
  using division_by_zero_returns_nonfinite [of zeroAngle]
  by (simp add: zeroAngle_def ToDecimal_def ToSpecificType_def)

section \<open>Subtraction\<close>

text \<open>
  C2. For two negative decimal operands \<open>a = -x\<close> and \<open>b = -y\<close> the difference \<open>a - b\<close>
  should be \<open>y - x\<close>. The code does not compute it: the branch of \<open>subToMinuendType\<close> for two
  negative operands subtracts the absolute value of the subtrahend from itself, so
  \<open>(-10\<degree>) - (-3\<degree>)\<close> evaluates to \<open>0\<degree>\<close> where \<open>-7\<degree>\<close> is due.
\<close>

theorem sub_two_negatives_evaluates_to_zero:
  "subToMinuendType (Suc (Suc (Suc n)))
     \<lparr>degree = Fin 10, minute = Fin 0, second = Fin 0, neg = True, angType = Decimal\<rparr>
     \<lparr>degree = Fin 3, minute = Fin 0, second = Fin 0, neg = True, angType = Decimal\<rparr>
   = Some \<lparr>degree = Fin 0, minute = Fin 0, second = Fin 0, neg = False, angType = Decimal\<rparr>"
  by (simp add: Abs_def ToSpecificType_def ToDecimal_def GreatherThan_def fsub_def zeroAngle_def)

text \<open>
  The same for every pair of negative decimal operands with a finite subtrahend: the
  minuend plays no part and the result is zero.
\<close>

lemma sub_two_negatives_ignores_minuend:
  assumes "neg a" "neg a1" "angType a = Decimal" "angType a1 = Decimal" "degree a1 = Fin y"
  shows "subToMinuendType (Suc (Suc (Suc n))) a a1 = Some zeroAngle"
  using assms
  by (simp add: Abs_def ToSpecificType_def ToDecimal_def GreatherThan_def fsub_def zeroAngle_def)

section \<open>Addition of operands of different sign\<close>

lemma angType_Neg [simp]: "angType (Neg a) = angType a"
  by (simp add: Neg_def)

lemma angType_prepareConvertMinuteSecond [simp]:
  "angType (prepareConvertMinuteSecond a) = angType a"
  by (simp add: prepareConvertMinuteSecond_def Let_def)

lemma angType_subToDecimalType:
  "subToDecimalType n a a1 = Some r \<Longrightarrow> angType r = Decimal"
proof (induction n arbitrary: a a1 r)
  case 0
  then show ?case by simp
next
  case (Suc n)
  then show ?case
    by (auto simp: Let_def zeroAngle_def split: if_splits)
qed

lemma angType_subToMinuteSecondType:
  "subToMinuteSecondType n a a1 = Some r \<Longrightarrow> angType r = DegreeMinuteSecond"
proof (induction n arbitrary: a a1 r)
  case 0
  then show ?case by simp
next
  case (Suc n)
  then show ?case
    by (auto simp: Let_def zeroAngle_def split: if_splits)
qed

lemma angType_sub_nonneg:
  assumes "\<not> neg a" "\<not> neg a1" "subToMinuendType n a a1 = Some r"
  shows "angType r = angType a1"
proof (cases n)
  case 0
  with assms show ?thesis by simp
next
  case (Suc m)
  with assms show ?thesis
    by (cases "angType a1")
      (auto simp del: subToDecimalType.simps subToMinuteSecondType.simps
        dest: angType_subToDecimalType angType_subToMinuteSecondType)
qed

lemma add_negative_augend:
  assumes "neg a" "\<not> neg a1"
  shows "addToAugendType (Suc n) a a1 = Sub n (ToSpecificType (angType a) a1) (Abs a)"
    and "addToAugendType (Suc n) a a1 = Some r \<Longrightarrow> angType r = angType a"
proof -
  show eq: "addToAugendType (Suc n) a a1 = Sub n (ToSpecificType (angType a) a1) (Abs a)"
    using assms by simp
  show "angType r = angType a" if "addToAugendType (Suc n) a a1 = Some r"
    using angType_sub_nonneg [of "ToSpecificType (angType a) a1" "Abs a" n r] that assms
    unfolding eq by simp
qed

lemma add_negative_addend:
  assumes "\<not> neg a" "neg a1"
  shows "addToAugendType (Suc n) a a1 = Sub n a (Abs a1)"
  using assms by simp

lemma add_decimal_negative_augend:
  "addToAugendType (Suc (Suc (Suc (Suc n))))
     \<lparr>degree = Fin x, minute = m, second = s, neg = True, angType = Decimal\<rparr>
     \<lparr>degree = Fin y, minute = m', second = s', neg = False, angType = Decimal\<rparr>
   = Some \<lparr>degree = Fin \<bar>y - x\<bar>, minute = Fin 0, second = Fin 0, neg = (y < x), angType = Decimal\<rparr>"
  by (simp add: Abs_def Neg_def ToSpecificType_def ToDecimal_def GreatherThan_def fsub_def
      zeroAngle_def Let_def)

lemma add_decimal_negative_addend:
  "addToAugendType (Suc (Suc (Suc (Suc n))))
     \<lparr>degree = Fin x, minute = m, second = s, neg = False, angType = Decimal\<rparr>
     \<lparr>degree = Fin y, minute = m', second = s', neg = True, angType = Decimal\<rparr>
   = Some \<lparr>degree = Fin \<bar>x - y\<bar>, minute = Fin 0, second = Fin 0, neg = (x < y), angType = Decimal\<rparr>"
  by (simp add: Abs_def Neg_def ToSpecificType_def ToDecimal_def GreatherThan_def fsub_def
      zeroAngle_def Let_def)

lemma add_examples:
  "addToAugendType (Suc (Suc (Suc (Suc n))))
     \<lparr>degree = Fin 10, minute = Fin 0, second = Fin 0, neg = True, angType = Decimal\<rparr>
     \<lparr>degree = Fin 15, minute = Fin 0, second = Fin 0, neg = False, angType = Decimal\<rparr>
   = Some \<lparr>degree = Fin 5, minute = Fin 0, second = Fin 0, neg = False, angType = Decimal\<rparr>"
  "addToAugendType (Suc (Suc (Suc (Suc n))))
     \<lparr>degree = Fin 10, minute = Fin 0, second = Fin 0, neg = True, angType = Decimal\<rparr>
     \<lparr>degree = Fin 5, minute = Fin 0, second = Fin 0, neg = True, angType = Decimal\<rparr>
   = Some \<lparr>degree = Fin 15, minute = Fin 0, second = Fin 0, neg = True, angType = Decimal\<rparr>"
  by (simp_all add: Abs_def Neg_def ToSpecificType_def ToDecimal_def GreatherThan_def fsub_def
      zeroAngle_def Let_def addToDecimalType_def)

text \<open>
  C5, as stated, fails on the code when the representations differ. With the augend
  \<open>-10\<degree>\<close> in decimal form and the addend \<open>15\<degree>0'0"\<close> as a triple, the positive operand is the
  triple, but the addend is converted to the augend's representation first and the result
  \<open>5\<degree>\<close> is decimal.
\<close>

theorem mixed_sign_addition_counterexample:
  "addToAugendType 4
     \<lparr>degree = Fin 10, minute = Fin 0, second = Fin 0, neg = True, angType = Decimal\<rparr>
     \<lparr>degree = Fin 15, minute = Fin 0, second = Fin 0, neg = False, angType = DegreeMinuteSecond\<rparr>
   = Some \<lparr>degree = Fin 5, minute = Fin 0, second = Fin 0, neg = False, angType = Decimal\<rparr>
   \<and> map_option angType
        (addToAugendType 4
          \<lparr>degree = Fin 10, minute = Fin 0, second = Fin 0, neg = True, angType = Decimal\<rparr>
          \<lparr>degree = Fin 15, minute = Fin 0, second = Fin 0, neg = False,
             angType = DegreeMinuteSecond\<rparr>)
      \<noteq> Some DegreeMinuteSecond"
  by (simp add: eval_nat_numeral Abs_def Neg_def ToSpecificType_def ToDecimal_def
      GreatherThan_def fsub_def zeroAngle_def Let_def)

text \<open>
  C5, amended. When exactly one operand is negative, \<open>a + b\<close> is computed as a subtraction
  of absolute values by \<open>Sub\<close>. When the augend \<open>a\<close> is the negative operand, the addend is
  first converted to the representation of \<open>a\<close> and \<open>|a|\<close> is subtracted from it, so the result
  is in the augend's representation; when the addend is the negative operand, \<open>|b|\<close> is
  subtracted from \<open>a\<close>. For two decimal operands with finite degrees the result is the signed
  difference: its magnitude is the absolute difference of the two magnitudes and it is
  negative exactly when the negative operand has the larger magnitude. In particular
  \<open>-10\<degree> + 15\<degree> = 5\<degree>\<close> and \<open>-10\<degree> + (-5\<degree>) = -15\<degree>\<close>.
\<close>

theorem mixed_sign_addition:
  "(neg a \<and> \<not> neg a1 \<longrightarrow>
      addToAugendType (Suc n) a a1 = Sub n (ToSpecificType (angType a) a1) (Abs a)
      \<and> (\<forall>r. addToAugendType (Suc n) a a1 = Some r \<longrightarrow> angType r = angType a))
   \<and> (\<not> neg a \<and> neg a1 \<longrightarrow> addToAugendType (Suc n) a a1 = Sub n a (Abs a1))
   \<and> addToAugendType (Suc (Suc (Suc (Suc n))))
        \<lparr>degree = Fin x, minute = m, second = s, neg = True, angType = Decimal\<rparr>
        \<lparr>degree = Fin y, minute = m', second = s', neg = False, angType = Decimal\<rparr>
      = Some \<lparr>degree = Fin \<bar>y - x\<bar>, minute = Fin 0, second = Fin 0, neg = (y < x),
               angType = Decimal\<rparr>
   \<and> addToAugendType (Suc (Suc (Suc (Suc n))))
        \<lparr>degree = Fin x, minute = m, second = s, neg = False, angType = Decimal\<rparr>
        \<lparr>degree = Fin y, minute = m', second = s', neg = True, angType = Decimal\<rparr>
      = Some \<lparr>degree = Fin \<bar>x - y\<bar>, minute = Fin 0, second = Fin 0, neg = (x < y),
               angType = Decimal\<rparr>
   \<and> addToAugendType (Suc (Suc (Suc (Suc n))))
        \<lparr>degree = Fin 10, minute = Fin 0, second = Fin 0, neg = True, angType = Decimal\<rparr>
        \<lparr>degree = Fin 15, minute = Fin 0, second = Fin 0, neg = False, angType = Decimal\<rparr>
      = Some \<lparr>degree = Fin 5, minute = Fin 0, second = Fin 0, neg = False, angType = Decimal\<rparr>
   \<and> addToAugendType (Suc (Suc (Suc (Suc n))))
        \<lparr>degree = Fin 10, minute = Fin 0, second = Fin 0, neg = True, angType = Decimal\<rparr>
        \<lparr>degree = Fin 5, minute = Fin 0, second = Fin 0, neg = True, angType = Decimal\<rparr>
      = Some \<lparr>degree = Fin 15, minute = Fin 0, second = Fin 0, neg = True, angType = Decimal\<rparr>"
  using add_negative_augend [of a a1 n] add_negative_addend [of a a1 n]
    add_decimal_negative_augend [of n x m s y m' s']
    add_decimal_negative_addend [of n x m s y m' s'] add_examples [of n]
  by blast

text \<open>
  An instance of the amended C5: \<open>-20\<degree> + 5\<degree> = -15\<degree>\<close>.
\<close>

theorem mixed_sign_addition_witness:
  "addToAugendType 4
     \<lparr>degree = Fin 20, minute = Fin 0, second = Fin 0, neg = True, angType = Decimal\<rparr>
     \<lparr>degree = Fin 5, minute = Fin 0, second = Fin 0, neg = False, angType = Decimal\<rparr>
   = Some \<lparr>degree = Fin 15, minute = Fin 0, second = Fin 0, neg = True, angType = Decimal\<rparr>"
  using mixed_sign_addition
    [of "\<lparr>degree = Fin 20, minute = Fin 0, second = Fin 0, neg = True, angType = Decimal\<rparr>"
        "\<lparr>degree = Fin 5, minute = Fin 0, second = Fin 0, neg = False, angType = Decimal\<rparr>"
        0 20 "Fin 0" "Fin 0" 5 "Fin 0" "Fin 0"]
  by (simp add: eval_nat_numeral del: addToAugendType.simps subToMinuendType.simps)

section \<open>Parsing\<close>

text \<open>
  C3. A text with a leading minus sign should set the sign flag and leave the magnitude
  fields non-negative. The code does not: the test for the minus sign in \<open>scanByString\<close> is
  placed after the test that sends every rune other than the three unit symbols to the
  buffer, so it is never reached. On the text \<open>-10\<degree>\<close> the minus sign goes to the buffer, the
  degree is read as \<open>-10\<close> and the flag stays unset.
\<close>

theorem unmarshal_negative_text:
  "UnmarshalParam jsonFloat (map of_char ''-10'' @ [DegreeSymbolRune]) zeroAngle
   = (\<lparr>degree = Fin (- 10), minute = Fin 0, second = Fin (- 10), neg = False, angType = Decimal\<rparr>,
      None)"
  by (simp add: UnmarshalParam_def scanByString_def decideFillBySymbol_def fillBySymbol_def
      jsonFloat_def jsonUnsigned_def lastRune_def zeroAngle_def DegreeSymbolRune_def
      MinuteSymbolRune_def SecondSymbolRune_def NegativeSymbolRune_def)

text \<open>
  The flag is not set by any text: after \<open>scanByString\<close> it is what it was before, for
  every way \<open>json.Unmarshal\<close> may read a number.
\<close>

lemma neg_fillBySymbol: "neg (fst (fillBySymbol unm src symbol d)) = neg d"
  by (simp add: fillBySymbol_def split: sum.splits)

lemma neg_decideFillBySymbol: "neg (fst (decideFillBySymbol unm src symbol d)) = neg d"
  by (simp add: decideFillBySymbol_def Let_def neg_fillBySymbol)

lemma neg_scanLoop: "neg (snd (fst (scanLoop unm src buff d))) = neg d"
proof (induction src arbitrary: buff d)
  case Nil
  then show ?case by simp
next
  case (Cons s rest)
  have "neg (fst (decideFillBySymbol unm buff s d)) = neg d"
    by (rule neg_decideFillBySymbol)
  with Cons show ?case
    by (auto simp: NegativeSymbolRune_def DegreeSymbolRune_def MinuteSymbolRune_def
        SecondSymbolRune_def split: prod.splits option.splits)
qed

lemma scanByString_keeps_neg: "neg (fst (scanByString unm src d)) = neg d"
proof -
  obtain buff d' e where l: "scanLoop unm src [] d = ((buff, d'), e)"
    by (metis prod.exhaust)
  have "neg d' = neg d"
    using neg_scanLoop [of unm src "[]" d] l by simp
  then show ?thesis
    using l neg_decideFillBySymbol [of unm buff "lastRune src" d']
    by (cases e) (simp_all add: scanByString_def)
qed

text \<open>
  C9. A text with the degree symbol only should fill the degree field and leave minute and
  second at zero. The code does not: the last assignment of \<open>fillBySymbol\<close>, to the second
  field, has no test of the symbol in front of it, so it runs for the degree symbol as well.
  On the text \<open>12.5\<degree>\<close> the second field is \<open>12.5\<close> too.
\<close>

theorem scan_degree_only_text:
  "scanByString jsonFloat (map of_char ''12.5'' @ [DegreeSymbolRune]) zeroAngle
   = (\<lparr>degree = Fin 12.5, minute = Fin 0, second = Fin 12.5, neg = False, angType = Decimal\<rparr>,
      None)"
  by (simp add: scanByString_def decideFillBySymbol_def fillBySymbol_def
      jsonFloat_def jsonUnsigned_def lastRune_def zeroAngle_def DegreeSymbolRune_def
      MinuteSymbolRune_def SecondSymbolRune_def NegativeSymbolRune_def)

section \<open>Validation of the configuration\<close>

text \<open>
  C4, as stated, fails on the code: \<open>SetPeriodical\<close> on a configuration whose start date is
  the zero instant puts the current time in its place and reports nothing; a validation
  after it no longer sees a missing date.
\<close>

theorem zero_date_defaulted_counterexample:
  "time_IsZero (dateStart zeroOpt)
   \<and> dateStart (SetPeriodical 1000 sameInstant 0 zeroOpt) = 1000
   \<and> snd (ValidateBySalat (SetPeriodical 1000 sameInstant 0 zeroOpt) Dhuhr) \<noteq> Some ErrDateMissing"
  by (simp add: SetPeriodical_def SetDatePeriodical_def sameInstant_def zeroOpt_def
      time_IsZero_def ValidateBySalat_def IsZero_def zeroAngle_def)

text \<open>
  C4, amended. Whenever the start date is the zero instant, \<open>ValidateBySalat\<close> reports
  \<open>ErrDateMissing\<close> to the caller, for every prayer and without changing the configuration;
  \<open>SetPeriodical\<close>, however, replaces a zero start date by the current time and takes the
  date range of the periodical from it.
\<close>

theorem zero_date_validation_and_default:
  assumes "time_IsZero (dateStart o1)"
  shows "ValidateBySalat o1 s = (o1, Some ErrDateMissing)
    \<and> SetPeriodical now getDateRange p o1
        = SetDatePeriodical getDateRange now p (o1\<lparr>dateStart := now\<rparr>)
    \<and> dateStart (SetPeriodical now getDateRange p o1) = fst (getDateRange p now)"
  using assms
  by (simp add: ValidateBySalat_def SetPeriodical_def SetDatePeriodical_def Let_def
      split: prod.splits)

text \<open>
  An instance of the amended C4, on the configuration with nothing set.
\<close>

theorem zero_date_validation_and_default_witness:
  "ValidateBySalat zeroOpt Fajr = (zeroOpt, Some ErrDateMissing)
   \<and> dateStart (SetPeriodical 1000 sameInstant 0 zeroOpt) = 1000"
proof -
  have h: "time_IsZero (dateStart zeroOpt)"
    by (simp add: zeroOpt_def time_IsZero_def)
  from zero_date_validation_and_default [OF h, of Fajr 1000 sameInstant 0]
  show ?thesis by (simp add: sameInstant_def SetDatePeriodical_def)
qed

text \<open>
  C7. With the date set and latitude and longitude not zero, \<open>ValidateBySalat\<close> returns
  \<open>ErrMazhabMissing\<close> for Asr when no mazhab is configured and no error for Dhuhr; the Fajr
  zenith is asked for exactly when Fajr is solved, the Isha zenith exactly when Isha is
  solved, and the mazhab exactly when Asr is solved.
\<close>

theorem validate_requirements_by_salat:
  assumes "\<not> time_IsZero (dateStart o1)" "\<not> IsZero (latitude o1)" "\<not> IsZero (longitude o1)"
  shows "(mazhab o1 = 0 \<longrightarrow> snd (ValidateBySalat o1 Asr) = Some ErrMazhabMissing)
    \<and> snd (ValidateBySalat o1 Dhuhr) = None
    \<and> (snd (ValidateBySalat o1 s) = Some ErrFajrZenithMissing) = (s = Fajr \<and> IsZero (fajrZenith o1))
    \<and> (snd (ValidateBySalat o1 s) = Some ErrIshaZenithMissing) = (s = Isha \<and> IsZero (ishaZenith o1))
    \<and> (snd (ValidateBySalat o1 s) = Some ErrMazhabMissing) = (s = Asr \<and> mazhab o1 = 0)"
proof -
  have asr: "snd (ValidateBySalat o1 Asr) = Some ErrMazhabMissing" if "mazhab o1 = 0"
    using assms that by (simp add: ValidateBySalat_def Let_def)
  have dhuhr: "snd (ValidateBySalat o1 Dhuhr) = None"
    using assms by (simp add: ValidateBySalat_def Let_def)
  have fajr: "(snd (ValidateBySalat o1 s) = Some ErrFajrZenithMissing) = (s = Fajr \<and> IsZero (fajrZenith o1))"
    using assms by (cases s) (simp_all add: ValidateBySalat_def Let_def)
  have isha: "(snd (ValidateBySalat o1 s) = Some ErrIshaZenithMissing) = (s = Isha \<and> IsZero (ishaZenith o1))"
    using assms by (cases s) (simp_all add: ValidateBySalat_def Let_def)
  have maz: "(snd (ValidateBySalat o1 s) = Some ErrMazhabMissing) = (s = Asr \<and> mazhab o1 = 0)"
    using assms by (cases s) (simp_all add: ValidateBySalat_def Let_def)
  from asr dhuhr fajr isha maz show ?thesis by blast
qed

text \<open>
  An instance of C7: a configuration with a date and coordinates only.
\<close>

theorem validate_requirements_by_salat_witness:
  "snd (ValidateBySalat
     (zeroOpt\<lparr>dateStart := 1,
        latitude := \<lparr>degree = Fin 21.42, minute = Fin 0, second = Fin 0, neg = False, angType = Decimal\<rparr>,
        longitude := \<lparr>degree = Fin 39.83, minute = Fin 0, second = Fin 0, neg = False, angType = Decimal\<rparr>\<rparr>)
     Asr) = Some ErrMazhabMissing
   \<and> snd (ValidateBySalat
     (zeroOpt\<lparr>dateStart := 1,
        latitude := \<lparr>degree = Fin 21.42, minute = Fin 0, second = Fin 0, neg = False, angType = Decimal\<rparr>,
        longitude := \<lparr>degree = Fin 39.83, minute = Fin 0, second = Fin 0, neg = False, angType = Decimal\<rparr>\<rparr>)
     Dhuhr) = None"
  using validate_requirements_by_salat
    [of "zeroOpt\<lparr>dateStart := 1,
        latitude := \<lparr>degree = Fin 21.42, minute = Fin 0, second = Fin 0, neg = False, angType = Decimal\<rparr>,
        longitude := \<lparr>degree = Fin 39.83, minute = Fin 0, second = Fin 0, neg = False, angType = Decimal\<rparr>\<rparr>" Asr]
  by (simp add: zeroOpt_def time_IsZero_def IsZero_def)

text \<open>
  C10. Once the date and the coordinates have passed their checks, \<open>ValidateBySalat\<close>
  leaves behind the configuration with the longitude in the latitude's representation and
  with UTC in place of a nil timezone, whether or not one of the later checks fails: a call
  that fails with \<open>ErrMazhabMissing\<close> on a configuration without a timezone returns a changed
  configuration. The timezone has no influence on the error returned.
\<close>

theorem validate_normalises_before_late_checks:
  assumes "\<not> time_IsZero (dateStart o1)" "\<not> IsZero (latitude o1)" "\<not> IsZero (longitude o1)"
  shows "fst (ValidateBySalat o1 s)
      = o1\<lparr>longitude := (if angType (latitude o1) \<noteq> angType (longitude o1)
                          then ToSpecificType (angType (latitude o1)) (longitude o1)
                          else longitude o1),
            timezoneLoc := (case timezoneLoc o1 of None \<Rightarrow> Some UTC | Some l \<Rightarrow> Some l)\<rparr>
    \<and> angType (longitude (fst (ValidateBySalat o1 s))) = angType (latitude o1)
    \<and> (mazhab o1 = 0 \<and> timezoneLoc o1 = None \<longrightarrow>
          snd (ValidateBySalat o1 Asr) = Some ErrMazhabMissing
          \<and> timezoneLoc (fst (ValidateBySalat o1 Asr)) = Some UTC
          \<and> fst (ValidateBySalat o1 Asr) \<noteq> o1)
    \<and> snd (ValidateBySalat (o1\<lparr>timezoneLoc := tz\<rparr>) s) = snd (ValidateBySalat o1 s)"
proof -
  have st: "fst (ValidateBySalat o1 s)
      = o1\<lparr>longitude := (if angType (latitude o1) \<noteq> angType (longitude o1)
                          then ToSpecificType (angType (latitude o1)) (longitude o1)
                          else longitude o1),
            timezoneLoc := (case timezoneLoc o1 of None \<Rightarrow> Some UTC | Some l \<Rightarrow> Some l)\<rparr>" for s
    using assms by (auto simp: ValidateBySalat_def Let_def split: option.splits)
  have ty: "angType (longitude (fst (ValidateBySalat o1 s))) = angType (latitude o1)"
    by (simp add: st)
  have asr: "snd (ValidateBySalat o1 Asr) = Some ErrMazhabMissing" if "mazhab o1 = 0"
    using assms that by (simp add: ValidateBySalat_def Let_def)
  have tz: "timezoneLoc (fst (ValidateBySalat o1 Asr)) = Some UTC" if "timezoneLoc o1 = None"
    using that by (simp add: st)
  have ne: "fst (ValidateBySalat o1 Asr) \<noteq> o1" if "timezoneLoc o1 = None"
    using tz [OF that] that by auto
  have err: "snd (ValidateBySalat (o1\<lparr>timezoneLoc := tz\<rparr>) s) = snd (ValidateBySalat o1 s)"
    by (simp add: ValidateBySalat_def Let_def)
  from st ty asr tz ne err show ?thesis by blast
qed

text \<open>
  An instance of C10: a decimal latitude, a longitude given as a triple, no timezone and
  no mazhab, validated for Asr.
\<close>

theorem validate_normalises_before_late_checks_witness:
  "snd (ValidateBySalat
     (zeroOpt\<lparr>dateStart := 1,
        latitude := \<lparr>degree = Fin 21.42, minute = Fin 0, second = Fin 0, neg = False, angType = Decimal\<rparr>,
        longitude := \<lparr>degree = Fin 39, minute = Fin 49, second = Fin 48, neg = False,
                       angType = DegreeMinuteSecond\<rparr>\<rparr>)
     Asr) = Some ErrMazhabMissing
   \<and> timezoneLoc (fst (ValidateBySalat
     (zeroOpt\<lparr>dateStart := 1,
        latitude := \<lparr>degree = Fin 21.42, minute = Fin 0, second = Fin 0, neg = False, angType = Decimal\<rparr>,
        longitude := \<lparr>degree = Fin 39, minute = Fin 49, second = Fin 48, neg = False,
                       angType = DegreeMinuteSecond\<rparr>\<rparr>)
     Asr)) = Some UTC
   \<and> angType (longitude (fst (ValidateBySalat
     (zeroOpt\<lparr>dateStart := 1,
        latitude := \<lparr>degree = Fin 21.42, minute = Fin 0, second = Fin 0, neg = False, angType = Decimal\<rparr>,
        longitude := \<lparr>degree = Fin 39, minute = Fin 49, second = Fin 48, neg = False,
                       angType = DegreeMinuteSecond\<rparr>\<rparr>)
     Asr))) = Decimal"
  using validate_normalises_before_late_checks
    [of "zeroOpt\<lparr>dateStart := 1,
        latitude := \<lparr>degree = Fin 21.42, minute = Fin 0, second = Fin 0, neg = False, angType = Decimal\<rparr>,
        longitude := \<lparr>degree = Fin 39, minute = Fin 49, second = Fin 48, neg = False,
                       angType = DegreeMinuteSecond\<rparr>\<rparr>" Asr]
  by (simp add: zeroOpt_def time_IsZero_def IsZero_def)

end
